theory Spec2Isabelle
  imports Main "HOL-Library.Word"
begin

section \<open>The proxy route \<open>frontend/app/api/backend/[...path]/route.ts\<close>\<close>

text \<open>
  The route exports two handlers, \<open>GET\<close> and \<open>POST\<close>, and one module constant,
  \<open>BACKEND\<close>. Everything else the handlers touch is the platform: \<open>process.env\<close>,
  \<open>Array.prototype.join\<close>, the operator \<open>||\<close>, and the Fetch API (\<open>fetch\<close>,
  \<open>Headers.get\<close>, \<open>Body.text\<close>, the \<open>Response\<close> constructor). The platform
  operations are written out below as the ECMAScript, Fetch and Encoding standards
  define them, each next to the place of the source that calls it.
\<close>

subsection \<open>JavaScript operators\<close>

text \<open>
  \<open>a || 'lit'\<close> where \<open>a\<close> is a string, \<open>null\<close> or \<open>undefined\<close>: the left operand
  when it is truthy, the literal otherwise. \<open>null\<close>, \<open>undefined\<close> and the empty
  string are the falsy values of these types.
\<close>

fun js_or :: "string option \<Rightarrow> string \<Rightarrow> string" where
  "js_or None d = d"
| "js_or (Some s) d = (if s = [] then d else s)"

text \<open>\<open>xs.join(sep)\<close> on an array of strings.\<close>

fun join :: "string \<Rightarrow> string list \<Rightarrow> string" where
  "join sep [] = []"
| "join sep [x] = x"
| "join sep (x # y # ys) = x @ sep @ join sep (y # ys)"

subsection \<open>Bytes and text\<close>

text \<open>
  A body on the wire is a sequence of bytes. A JavaScript string obtained from
  \<open>Body.text()\<close> is a sequence of Unicode scalar values, kept here as the list of
  its code points.
\<close>

type_synonym byte = "8 word"
type_synonym usv_string = "nat list"

text \<open>
  The first byte of a sequence, as the UTF-8 decoder of the Encoding standard reads it
  when no bytes are pending: an ASCII byte is emitted as it is, a lead byte opens a
  sequence \<open>(code point, bytes needed, lower boundary, upper boundary)\<close>, anything else
  is an error.
\<close>

datatype lead = Emit nat | Need nat nat nat nat | Bad

definition utf8_lead :: "nat \<Rightarrow> lead" where
  "utf8_lead b =
     (if b \<le> 0x7F then Emit b
      else if 0xC2 \<le> b \<and> b \<le> 0xDF then Need (b mod 32) 1 0x80 0xBF
      else if 0xE0 \<le> b \<and> b \<le> 0xEF then
        Need (b mod 16) 2 (if b = 0xE0 then 0xA0 else 0x80) (if b = 0xED then 0x9F else 0xBF)
      else if 0xF0 \<le> b \<and> b \<le> 0xF4 then
        Need (b mod 8) 3 (if b = 0xF0 then 0x90 else 0x80) (if b = 0xF4 then 0x8F else 0xBF)
      else Bad)"

text \<open>
  The decoder with replacement: \<open>None\<close> is the state with no bytes pending,
  \<open>Some (cp, needed, lower, upper)\<close> the state inside a sequence. A byte outside the
  boundaries ends the sequence with U+FFFD and is read again as a first byte; the end
  of the input inside a sequence gives U+FFFD.
\<close>

function utf8_decoder :: "(nat \<times> nat \<times> nat \<times> nat) option \<Rightarrow> byte list \<Rightarrow> usv_string" where
  "utf8_decoder None [] = []"
| "utf8_decoder (Some s) [] = [0xFFFD]"
| "utf8_decoder None (b # bs) =
     (case utf8_lead (unat b) of
        Emit c \<Rightarrow> c # utf8_decoder None bs
      | Need cp n lo hi \<Rightarrow> utf8_decoder (Some (cp, n, lo, hi)) bs
      | Bad \<Rightarrow> 0xFFFD # utf8_decoder None bs)"
| "utf8_decoder (Some (cp, n, lo, hi)) (b # bs) =
     (if unat b < lo \<or> hi < unat b then 0xFFFD # utf8_decoder None (b # bs)
      else if n \<le> 1 then (cp * 64 + unat b mod 64) # utf8_decoder None bs
      else utf8_decoder (Some (cp * 64 + unat b mod 64, n - 1, 0x80, 0xBF)) bs)"
  by pat_completeness auto
termination
  by (relation "measure (\<lambda>(st, bs). 2 * length bs + (case st of None \<Rightarrow> 0 | Some _ \<Rightarrow> 1))") auto

text \<open>
  \<open>UTF-8 decode\<close> of the Encoding standard, which \<open>Body.text()\<close> runs: a leading
  byte order mark \<open>EF BB BF\<close> is dropped, the rest goes through the decoder.
\<close>

fun utf8_decode :: "byte list \<Rightarrow> usv_string" where
  "utf8_decode (b1 # b2 # b3 # bs) =
     (if b1 = 0xEF \<and> b2 = 0xBB \<and> b3 = 0xBF then utf8_decoder None bs
      else utf8_decoder None (b1 # b2 # b3 # bs))"
| "utf8_decode bs = utf8_decoder None bs"

text \<open>
  \<open>UTF-8 encode\<close>, which turns a string body into the bytes sent. A string that
  \<open>Body.text()\<close> returned holds scalar values only, so no code point is replaced.
\<close>

definition utf8_encode_cp :: "nat \<Rightarrow> byte list" where
  "utf8_encode_cp c =
     (if c < 0x80 then [of_nat c]
      else if c < 0x800 then [of_nat (0xC0 + c div 64), of_nat (0x80 + c mod 64)]
      else if c < 0x10000 then
        [of_nat (0xE0 + c div 4096), of_nat (0x80 + c div 64 mod 64), of_nat (0x80 + c mod 64)]
      else
        [of_nat (0xF0 + c div 262144), of_nat (0x80 + c div 4096 mod 64),
         of_nat (0x80 + c div 64 mod 64), of_nat (0x80 + c mod 64)])"

definition utf8_encode :: "usv_string \<Rightarrow> byte list" where
  "utf8_encode t = concat (map utf8_encode_cp t)"

subsection \<open>Headers\<close>

text \<open>
  A \<open>Headers\<close> object is a list of name and value pairs. \<open>get(name)\<close> compares names
  without regard to ASCII case and returns \<open>null\<close> when no header has the name, the
  values joined by a comma and a space otherwise.
\<close>

type_synonym header_list = "(string \<times> string) list"

definition ascii_lower :: "char \<Rightarrow> char" where
  "ascii_lower c =
     (case map_of (zip ''ABCDEFGHIJKLMNOPQRSTUVWXYZ'' ''abcdefghijklmnopqrstuvwxyz'') c of
        Some l \<Rightarrow> l
      | None \<Rightarrow> c)"

definition headers_get :: "header_list \<Rightarrow> string \<Rightarrow> string option" where
  "headers_get hs name =
     (case map snd (filter (\<lambda>h. map ascii_lower (fst h) = map ascii_lower name) hs) of
        [] \<Rightarrow> None
      | vs \<Rightarrow> Some (join '', '' vs))"

subsection \<open>Requests, responses and exceptions\<close>

text \<open>
  What the handlers read of the inbound \<open>NextRequest\<close>: \<open>req.nextUrl.search\<close>,
  \<open>req.headers\<close>, and the body that \<open>req.text()\<close> decodes.
\<close>

record NextRequest =
  nextUrl_search :: string
  req_headers :: header_list
  req_body :: "byte list"

text \<open>The second argument of \<open>fetch\<close>; \<open>fetch(url)\<close> passes the defaults.\<close>

record RequestInit =
  init_method :: string
  init_headers :: header_list
  init_body :: "usv_string option"

definition default_init :: RequestInit where
  "default_init = \<lparr>init_method = ''GET'', init_headers = [], init_body = None\<rparr>"

text \<open>The request that a call of \<open>fetch\<close> sends upstream.\<close>

record upstream_request =
  rq_url :: string
  rq_method :: string
  rq_headers :: header_list
  rq_body :: "byte list option"

text \<open>A Fetch \<open>Response\<close>: the one \<open>fetch\<close> resolves to and the one a handler returns.\<close>

record Response =
  status :: nat
  resp_headers :: header_list
  resp_body :: "byte list"

text \<open>
  The exceptions that occur: \<open>fetch\<close> rejects with a \<open>TypeError\<close> on a network
  failure, the \<open>Response\<close> constructor throws a \<open>TypeError\<close> or a
  \<open>RangeError\<close>. The string is the message; its wording is the runtime's.
\<close>

datatype exn = TypeError string | RangeError string

text \<open>
  A handler's outcome: the upstream requests it issued, in order, and either the
  exception it rejects with or the response it resolves to.
\<close>

type_synonym outcome = "upstream_request list \<times> (exn + Response)"

text \<open>
  \<open>fetch(url, init)\<close>: one request to the upstream, whose answer (a response, or the
  rejection of a network failure) is given by \<open>upstream\<close>. A string body is sent
  UTF-8 encoded.
\<close>

definition fetch ::
  "(upstream_request \<Rightarrow> exn + Response) \<Rightarrow> string \<Rightarrow> RequestInit \<Rightarrow>
   upstream_request list \<times> (exn + Response)" where
  "fetch upstream url init =
     (let rq = \<lparr>rq_url = url, rq_method = init_method init, rq_headers = init_headers init,
                rq_body = map_option utf8_encode (init_body init)\<rparr>
      in ([rq], upstream rq))"

text \<open>\<open>r.text()\<close> and \<open>req.text()\<close>.\<close>

definition text_of :: "byte list \<Rightarrow> usv_string" where
  "text_of bs = utf8_decode bs"

text \<open>
  \<open>new Response(text, { status, headers })\<close> with a string body (Fetch standard,
  ``initialize a response''): a status outside 200..599 throws a \<open>RangeError\<close>; a
  body that is not null together with a null body status throws a \<open>TypeError\<close>. The
  string \<open>text\<close> is never null, also when it is empty. The headers object given
  already holds \<open>Content-Type\<close>, so none is added for the body.
\<close>

definition null_body_status :: "nat \<Rightarrow> bool" where
  "null_body_status s = (s = 101 \<or> s = 103 \<or> s = 204 \<or> s = 205 \<or> s = 304)"

definition new_Response :: "usv_string \<Rightarrow> nat \<Rightarrow> header_list \<Rightarrow> exn + Response" where
  "new_Response t st hs =
     (if st < 200 \<or> 599 < st then Inl (RangeError ''status'')
      else if null_body_status st then Inl (TypeError ''null body status'')
      else Inr \<lparr>status = st, resp_headers = hs, resp_body = utf8_encode t\<rparr>)"

subsection \<open>The module\<close>

text \<open>
  \<^verbatim>\<open>const BACKEND = process.env.NEXT_PUBLIC_BACKEND_URL || 'http://localhost:8000'\<close>

  \<open>process.env\<close> is a map from names to strings; a name that is not set reads as
  \<open>undefined\<close>.
\<close>

definition BACKEND :: "(string \<rightharpoonup> string) \<Rightarrow> string" where
  "BACKEND env = js_or (env ''NEXT_PUBLIC_BACKEND_URL'') ''http://localhost:8000''"

text \<open>
  \<^verbatim>\<open>
  export async function GET(req, { params }) {
    const url = `${BACKEND}/${params.path.join('/')}${req.nextUrl.search}`
    const r = await fetch(url)
    const text = await r.text()
    return new Response(text, { status: r.status,
      headers: { 'Content-Type': r.headers.get('Content-Type') || 'application/json' } })
  }\<close>

  The handler takes the value of the module constant as \<open>backend\<close> and the captured
  segments \<open>params.path\<close> as \<open>path\<close>. An \<open>await\<close> on a rejected promise ends the
  handler with that rejection; a constructor that throws ends it with the exception.
\<close>

definition GET ::
  "string \<Rightarrow> (upstream_request \<Rightarrow> exn + Response) \<Rightarrow> NextRequest \<Rightarrow> string list \<Rightarrow> outcome" where
  "GET backend upstream req path =
     (let url = backend @ ''/'' @ join ''/'' path @ nextUrl_search req;
          (issued, awaited) = fetch upstream url default_init
      in case awaited of
           Inl e \<Rightarrow> (issued, Inl e)
         | Inr r \<Rightarrow>
             (let text = text_of (resp_body r)
              in (issued,
                  new_Response text (status r)
                    [(''Content-Type'',
                      js_or (headers_get (resp_headers r) ''Content-Type'') ''application/json'')])))"

text \<open>
  \<^verbatim>\<open>
  export async function POST(req, { params }) {
    const url = `${BACKEND}/${params.path.join('/')}${req.nextUrl.search}`
    const body = await req.text()
    const r = await fetch(url, { method: 'POST',
      headers: { 'Content-Type': req.headers.get('Content-Type') || 'application/json' }, body })
    const text = await r.text()
    return new Response(text, { status: r.status,
      headers: { 'Content-Type': r.headers.get('Content-Type') || 'application/json' } })
  }\<close>
\<close>

definition POST ::
  "string \<Rightarrow> (upstream_request \<Rightarrow> exn + Response) \<Rightarrow> NextRequest \<Rightarrow> string list \<Rightarrow> outcome" where
  "POST backend upstream req path =
     (let url = backend @ ''/'' @ join ''/'' path @ nextUrl_search req;
          body = text_of (req_body req);
          (issued, awaited) =
            fetch upstream url
              \<lparr>init_method = ''POST'',
               init_headers =
                 [(''Content-Type'',
                   js_or (headers_get (req_headers req) ''Content-Type'') ''application/json'')],
               init_body = Some body\<rparr>
      in case awaited of
           Inl e \<Rightarrow> (issued, Inl e)
         | Inr r \<Rightarrow>
             (let text = text_of (resp_body r)
              in (issued,
                  new_Response text (status r)
                    [(''Content-Type'',
                      js_or (headers_get (resp_headers r) ''Content-Type'') ''application/json'')])))"

subsection \<open>The life of the module\<close>

text \<open>
  The module body runs once, when the module is loaded; the framework then calls the
  exported handlers, once per inbound request. \<open>serve env0 arrivals\<close> loads the
  module in the environment \<open>env0\<close> and handles the arrivals in order. Each arrival
  carries the process environment and the upstream as they are when it is handled.
\<close>

datatype exported = GET_handler | POST_handler

record arrival =
  env_now :: "string \<rightharpoonup> string"
  upstream_now :: "upstream_request \<Rightarrow> exn + Response"
  export_called :: exported
  inbound :: NextRequest
  captured :: "string list"

definition invoke :: "string \<Rightarrow> arrival \<Rightarrow> outcome" where
  "invoke backend a =
     (case export_called a of
        GET_handler \<Rightarrow> GET backend (upstream_now a) (inbound a) (captured a)
      | POST_handler \<Rightarrow> POST backend (upstream_now a) (inbound a) (captured a))"

definition serve :: "(string \<rightharpoonup> string) \<Rightarrow> arrival list \<Rightarrow> outcome list" where
  "serve env0 arrivals = (let backend = BACKEND env0 in map (invoke backend) arrivals)"

subsection \<open>Notions used to state the properties\<close>

text \<open>
  The last two lines of both handlers: the response built from the upstream
  response \<open>r\<close>.
\<close>

definition relay :: "Response \<Rightarrow> exn + Response" where
  "relay r =
     new_Response (text_of (resp_body r)) (status r)
       [(''Content-Type'',
         js_or (headers_get (resp_headers r) ''Content-Type'') ''application/json'')]"

text \<open>The statuses that the \<open>Response\<close> constructor accepts together with a body.\<close>

definition relayable :: "nat \<Rightarrow> bool" where
  "relayable s = (200 \<le> s \<and> s \<le> 599 \<and> \<not> null_body_status s)"

text \<open>
  Well-formed UTF-8 is the encoding of a sequence of Unicode scalar values: code points
  up to U+10FFFF that are no surrogates. \<open>no_bom\<close> says that the sequence does not
  begin with the byte order mark U+FEFF.
\<close>

definition scalar_value :: "nat \<Rightarrow> bool" where
  "scalar_value c = (c < 0xD800 \<or> (0xE000 \<le> c \<and> c < 0x110000))"

definition no_bom :: "usv_string \<Rightarrow> bool" where
  "no_bom t = (case t of [] \<Rightarrow> True | c # _ \<Rightarrow> c \<noteq> 0xFEFF)"

section \<open>The UTF-8 codec\<close>

text \<open>
  Decoding the encoding of scalar values gives them back. The proof follows the
  encoder's four cases: a code point is written in base 64, its digits are spread over
  a lead byte and up to three continuation bytes, and the decoder collects them again.
\<close>

lemma unat_byte: "n < 256 \<Longrightarrow> unat (of_nat n :: byte) = n"
  by (simp add: unat_of_nat)

lemma mod_add_multiple: "r < m \<Longrightarrow> (k * m + r) mod m = (r::nat)"
  by simp

lemma continuation_payload: "r < 64 \<Longrightarrow> (128 + r) mod 64 = (r::nat)"
  using mod_add_multiple [of r 64 2] by simp

text \<open>A code point in base 64, with two, three and four digits.\<close>

lemma digits2: "(c::nat) = (c div 64) * 64 + c mod 64"
  by simp

lemma div_4096: "(c::nat) div 4096 = c div 64 div 64"
  by (simp add: div_mult2_eq)

lemma div_262144: "(c::nat) div 262144 = c div 4096 div 64"
  by (simp add: div_mult2_eq)

lemma nest_digits3: "(c::nat) = A * 64 + r \<Longrightarrow> A = B * 64 + q \<Longrightarrow> c = (B * 64 + q) * 64 + r"
  by simp

lemma nest_digits4:
  "(c::nat) = (A * 64 + q) * 64 + r \<Longrightarrow> A = B * 64 + p \<Longrightarrow> c = ((B * 64 + p) * 64 + q) * 64 + r"
  by simp

lemma div_64_digits: "(c::nat) div 64 = c div 4096 * 64 + c div 64 mod 64"
  unfolding div_4096 by simp

lemma div_4096_digits: "(c::nat) div 4096 = c div 262144 * 64 + c div 4096 mod 64"
  unfolding div_262144 by simp

lemma digits3: "(c::nat) = (c div 4096 * 64 + c div 64 mod 64) * 64 + c mod 64"
  by (rule nest_digits3 [OF digits2 div_64_digits])

lemma digits4:
  "(c::nat) = ((c div 262144 * 64 + c div 4096 mod 64) * 64 + c div 64 mod 64) * 64 + c mod 64"
  by (rule nest_digits4 [OF digits3 div_4096_digits])

text \<open>The decoder on one sequence of one, two, three and four bytes.\<close>

lemma decoder_one_byte:
  assumes "unat b1 = c" "c < 0x80"
  shows "utf8_decoder None (b1 # bs) = c # utf8_decoder None bs"
  using assms by (simp add: utf8_lead_def)

lemma decoder_last_continuation:
  assumes "unat b = 0x80 + r" "r < 64" "lo \<le> 0x80 + r" "0x80 + r \<le> hi"
  shows "utf8_decoder (Some (cp, 1, lo, hi)) (b # bs) = (cp * 64 + r) # utf8_decoder None bs"
  using assms by (simp add: continuation_payload)

lemma decoder_continuation:
  assumes "unat b = 0x80 + r" "r < 64" "lo \<le> 0x80 + r" "0x80 + r \<le> hi" "1 < n"
  shows "utf8_decoder (Some (cp, n, lo, hi)) (b # bs) =
         utf8_decoder (Some (cp * 64 + r, n - 1, 0x80, 0xBF)) bs"
  using assms by (simp add: continuation_payload)

lemma utf8_lead_two: "2 \<le> q \<Longrightarrow> q < 32 \<Longrightarrow> utf8_lead (0xC0 + q) = Need q 1 0x80 0xBF"
proof -
  assume q: "2 \<le> q" "q < 32"
  have qm: "(192 + q) mod 32 = q" using q mod_add_multiple [of q 32 6] by simp
  show ?thesis using q by (simp add: utf8_lead_def qm)
qed

lemma utf8_lead_three:
  "p < 16 \<Longrightarrow> utf8_lead (0xE0 + p) =
     Need p 2 (if p = 0 then 0xA0 else 0x80) (if p = 13 then 0x9F else 0xBF)"
proof -
  assume p: "p < 16"
  have pm: "(224 + p) mod 16 = p" using p mod_add_multiple [of p 16 14] by simp
  show ?thesis using p by (simp add: utf8_lead_def pm)
qed

lemma utf8_lead_four:
  "o' < 5 \<Longrightarrow> utf8_lead (0xF0 + o') =
     Need o' 3 (if o' = 0 then 0x90 else 0x80) (if o' = 4 then 0x8F else 0xBF)"
proof -
  assume p: "o' < 5"
  have pm: "(240 + o') mod 8 = o'" using p mod_add_multiple [of o' 8 30] by simp
  show ?thesis using p by (simp add: utf8_lead_def pm)
qed

lemma decoder_two_bytes:
  assumes "unat b1 = 0xC0 + q" "2 \<le> q" "q < 32" "unat b2 = 0x80 + r" "r < 64"
  shows "utf8_decoder None (b1 # b2 # bs) = (q * 64 + r) # utf8_decoder None bs"
proof -
  have "utf8_decoder None (b1 # b2 # bs) = utf8_decoder (Some (q, 1, 0x80, 0xBF)) (b2 # bs)"
    using assms(1-3) by (simp add: utf8_lead_two)
  also have "\<dots> = (q * 64 + r) # utf8_decoder None bs"
    using assms(4,5) by (intro decoder_last_continuation) simp_all
  finally show ?thesis .
qed

lemma decoder_three_bytes:
  assumes "unat b1 = 0xE0 + p" "p < 16" "unat b2 = 0x80 + q" "q < 64" "unat b3 = 0x80 + r" "r < 64"
    and lo: "p = 0 \<Longrightarrow> 32 \<le> q" and hi: "p = 13 \<Longrightarrow> q < 32"
  shows "utf8_decoder None (b1 # b2 # b3 # bs) = ((p * 64 + q) * 64 + r) # utf8_decoder None bs"
proof -
  let ?lo = "if p = 0 then 0xA0 else 0x80" and ?hi = "if p = 13 then 0x9F else (0xBF::nat)"
  have "utf8_decoder None (b1 # b2 # b3 # bs) = utf8_decoder (Some (p, 2, ?lo, ?hi)) (b2 # b3 # bs)"
    using assms(1,2) by (simp add: utf8_lead_three)
  also have "\<dots> = utf8_decoder (Some (p * 64 + q, 2 - 1, 0x80, 0xBF)) (b3 # bs)"
    using assms(3,4) lo hi by (intro decoder_continuation) auto
  also have "\<dots> = ((p * 64 + q) * 64 + r) # utf8_decoder None bs"
    using assms(5,6) by (simp add: continuation_payload)
  finally show ?thesis .
qed

lemma decoder_four_bytes:
  assumes "unat b1 = 0xF0 + o'" "o' < 5" "unat b2 = 0x80 + p" "p < 64"
    "unat b3 = 0x80 + q" "q < 64" "unat b4 = 0x80 + r" "r < 64"
    and lo: "o' = 0 \<Longrightarrow> 16 \<le> p" and hi: "o' = 4 \<Longrightarrow> p < 16"
  shows "utf8_decoder None (b1 # b2 # b3 # b4 # bs) =
         (((o' * 64 + p) * 64 + q) * 64 + r) # utf8_decoder None bs"
proof -
  let ?lo = "if o' = 0 then 0x90 else 0x80" and ?hi = "if o' = 4 then 0x8F else (0xBF::nat)"
  have "utf8_decoder None (b1 # b2 # b3 # b4 # bs) =
        utf8_decoder (Some (o', 3, ?lo, ?hi)) (b2 # b3 # b4 # bs)"
    using assms(1,2) by (simp add: utf8_lead_four)
  also have "\<dots> = utf8_decoder (Some (o' * 64 + p, 3 - 1, 0x80, 0xBF)) (b3 # b4 # bs)"
    using assms(3,4) lo hi by (intro decoder_continuation) auto
  also have "\<dots> = utf8_decoder (Some ((o' * 64 + p) * 64 + q, 1, 0x80, 0xBF)) (b4 # bs)"
    using assms(5,6) by (simp add: continuation_payload)
  also have "\<dots> = (((o' * 64 + p) * 64 + q) * 64 + r) # utf8_decoder None bs"
    using assms(7,8) by (simp add: continuation_payload)
  finally show ?thesis .
qed

text \<open>The bytes the encoder writes for a scalar value are such a sequence.\<close>

lemma decoder_encode_cp:
  assumes "scalar_value c"
  shows "utf8_decoder None (utf8_encode_cp c @ bs) = c # utf8_decoder None bs"
proof -
  have r: "c mod 64 < 64" and q: "c div 64 mod 64 < 64" and p: "c div 4096 mod 64 < 64"
    by simp_all
  have top: "c < 0x110000" using assms by (auto simp: scalar_value_def)
  show ?thesis
  proof (cases "c < 0x80")
    case True
    have e: "utf8_encode_cp c = [of_nat c]" using True by (simp add: utf8_encode_cp_def)
    have b: "unat (of_nat c :: byte) = c" using True by (intro unat_byte) simp
    show ?thesis unfolding e using decoder_one_byte [OF b True] by simp
  next
    case c1: False
    show ?thesis
    proof (cases "c < 0x800")
      case True
      have e: "utf8_encode_cp c = [of_nat (0xC0 + c div 64), of_nat (0x80 + c mod 64)]"
        using c1 True by (simp add: utf8_encode_cp_def)
      have q2: "2 \<le> c div 64" "c div 64 < 32" using c1 True by simp_all
      have b1: "unat (of_nat (0xC0 + c div 64) :: byte) = 0xC0 + c div 64"
        using q2 by (intro unat_byte) simp
      have b2: "unat (of_nat (0x80 + c mod 64) :: byte) = 0x80 + c mod 64"
        using r by (intro unat_byte) simp
      have "utf8_decoder None ([of_nat (0xC0 + c div 64), of_nat (0x80 + c mod 64)] @ bs) =
            (c div 64 * 64 + c mod 64) # utf8_decoder None bs"
        using decoder_two_bytes [OF b1 q2 b2 r] by simp
      then show ?thesis unfolding e using digits2 [of c] by simp
    next
      case c2: False
      show ?thesis
      proof (cases "c < 0x10000")
        case True
        have e: "utf8_encode_cp c =
            [of_nat (0xE0 + c div 4096), of_nat (0x80 + c div 64 mod 64), of_nat (0x80 + c mod 64)]"
          using c1 c2 True by (simp add: utf8_encode_cp_def)
        have p3: "c div 4096 < 16" using True by simp
        have lo: "c div 4096 = 0 \<Longrightarrow> 32 \<le> c div 64 mod 64"
        proof -
          assume z: "c div 4096 = 0"
          then have "c div 64 div 64 = 0" by (simp add: div_4096)
          then have "c div 64 mod 64 = c div 64" by (simp add: div_eq_0_iff)
          moreover have "32 \<le> c div 64" using c2 by simp
          ultimately show ?thesis by simp
        qed
        have hi: "c div 4096 = 13 \<Longrightarrow> c div 64 mod 64 < 32"
        proof -
          assume z: "c div 4096 = 13"
          have "c div 64 = c div 4096 * 64 + c div 64 mod 64" by (rule div_64_digits)
          then have a: "c div 64 = 832 + c div 64 mod 64" using z by simp
          have "c < 0xD800" using assms True z by (auto simp: scalar_value_def)
          then have "c div 64 < 864" by simp
          then show ?thesis using a by linarith
        qed
        have b1: "unat (of_nat (0xE0 + c div 4096) :: byte) = 0xE0 + c div 4096"
          using p3 by (intro unat_byte) simp
        have b2: "unat (of_nat (0x80 + c div 64 mod 64) :: byte) = 0x80 + c div 64 mod 64"
          using q by (intro unat_byte) simp
        have b3: "unat (of_nat (0x80 + c mod 64) :: byte) = 0x80 + c mod 64"
          using r by (intro unat_byte) simp
        have "utf8_decoder None ([of_nat (0xE0 + c div 4096), of_nat (0x80 + c div 64 mod 64),
                of_nat (0x80 + c mod 64)] @ bs) =
              ((c div 4096 * 64 + c div 64 mod 64) * 64 + c mod 64) # utf8_decoder None bs"
          using decoder_three_bytes [OF b1 p3 b2 q b3 r lo hi] by simp
        then show ?thesis unfolding e using digits3 [of c] by simp
      next
        case c3: False
        have e: "utf8_encode_cp c =
            [of_nat (0xF0 + c div 262144), of_nat (0x80 + c div 4096 mod 64),
             of_nat (0x80 + c div 64 mod 64), of_nat (0x80 + c mod 64)]"
          using c1 c2 c3 by (simp add: utf8_encode_cp_def)
        have o4: "c div 262144 < 5" using top by simp
        have lo: "c div 262144 = 0 \<Longrightarrow> 16 \<le> c div 4096 mod 64"
        proof -
          assume z: "c div 262144 = 0"
          then have "c div 4096 div 64 = 0" by (simp add: div_262144)
          then have "c div 4096 mod 64 = c div 4096" by (simp add: div_eq_0_iff)
          moreover have "16 \<le> c div 4096" using c3 by simp
          ultimately show ?thesis by simp
        qed
        have hi: "c div 262144 = 4 \<Longrightarrow> c div 4096 mod 64 < 16"
        proof -
          assume z: "c div 262144 = 4"
          have "c div 4096 = c div 262144 * 64 + c div 4096 mod 64" by (rule div_4096_digits)
          then have a: "c div 4096 = 256 + c div 4096 mod 64" using z by simp
          have "c div 4096 < 272" using top by simp
          then show ?thesis using a by linarith
        qed
        have b1: "unat (of_nat (0xF0 + c div 262144) :: byte) = 0xF0 + c div 262144"
          using o4 by (intro unat_byte) simp
        have b2: "unat (of_nat (0x80 + c div 4096 mod 64) :: byte) = 0x80 + c div 4096 mod 64"
          using p by (intro unat_byte) simp
        have b3: "unat (of_nat (0x80 + c div 64 mod 64) :: byte) = 0x80 + c div 64 mod 64"
          using q by (intro unat_byte) simp
        have b4: "unat (of_nat (0x80 + c mod 64) :: byte) = 0x80 + c mod 64"
          using r by (intro unat_byte) simp
        have "utf8_decoder None ([of_nat (0xF0 + c div 262144), of_nat (0x80 + c div 4096 mod 64),
                of_nat (0x80 + c div 64 mod 64), of_nat (0x80 + c mod 64)] @ bs) =
              (((c div 262144 * 64 + c div 4096 mod 64) * 64 + c div 64 mod 64) * 64 + c mod 64)
                # utf8_decoder None bs"
          using decoder_four_bytes [OF b1 o4 b2 p b3 q b4 r lo hi] by simp
        then show ?thesis unfolding e using digits4 [of c] by simp
      qed
    qed
  qed
qed

lemma decoder_encode:
  "list_all scalar_value t \<Longrightarrow> utf8_decoder None (utf8_encode t @ bs) = t @ utf8_decoder None bs"
  by (induction t) (simp_all add: utf8_encode_def decoder_encode_cp)

text \<open>
  The three bytes of the byte order mark decode to U+FEFF, so the encoding of a string
  that does not begin with U+FEFF does not begin with them.
\<close>

lemma decoder_bom: "utf8_decoder None (0xEF # 0xBB # 0xBF # bs) = 0xFEFF # utf8_decoder None bs"
  using decoder_three_bytes [of "0xEF" 15 "0xBB" 59 "0xBF" 63 bs] by simp

lemma utf8_decode_no_bom:
  "\<not> (\<exists>rest. bs = 0xEF # 0xBB # 0xBF # rest) \<Longrightarrow> utf8_decode bs = utf8_decoder None bs"
  by (cases bs rule: utf8_decode.cases) auto

lemma utf8_decode_encode:
  assumes "list_all scalar_value t" "no_bom t"
  shows "utf8_decode (utf8_encode t) = t"
proof -
  have rt: "utf8_decoder None (utf8_encode t) = t"
    using decoder_encode [OF assms(1), of "[]"] by simp
  have "\<not> (\<exists>rest. utf8_encode t = 0xEF # 0xBB # 0xBF # rest)"
  proof
    assume "\<exists>rest. utf8_encode t = 0xEF # 0xBB # 0xBF # rest"
    then obtain rest where "utf8_encode t = 0xEF # 0xBB # 0xBF # rest" ..
    then have "t = 0xFEFF # utf8_decoder None rest"
      using rt decoder_bom [of rest] by simp
    then show False using assms(2) by (simp add: no_bom_def)
  qed
  then show ?thesis using rt by (simp add: utf8_decode_no_bom)
qed

section \<open>What the handlers do\<close>

text \<open>
  Each handler issues one request. Its result is the rejection of \<open>fetch\<close> when the
  upstream call fails, and otherwise what the \<open>Response\<close> constructor makes of the
  upstream response.
\<close>

lemma GET_issued:
  "fst (GET backend upstream req path) =
     [\<lparr>rq_url = backend @ ''/'' @ join ''/'' path @ nextUrl_search req,
       rq_method = ''GET'', rq_headers = [], rq_body = None\<rparr>]"
  by (simp add: GET_def fetch_def default_init_def Let_def split: sum.split)

lemma POST_issued:
  "fst (POST backend upstream req path) =
     [\<lparr>rq_url = backend @ ''/'' @ join ''/'' path @ nextUrl_search req,
       rq_method = ''POST'',
       headers =
         [(''Content-Type'',
           js_or (headers_get (req_headers req) ''Content-Type'') ''application/json'')],
       rq_body = Some (utf8_encode (utf8_decode (req_body req)))\<rparr>]"
  by (simp add: POST_def fetch_def text_of_def Let_def split: sum.split)

lemma GET_awaited:
  assumes "fst (GET backend upstream req path) = [rq]"
  shows "snd (GET backend upstream req path) =
         (case upstream rq of Inl e \<Rightarrow> Inl e | Inr r \<Rightarrow> relay r)"
proof -
  have "rq = \<lparr>rq_url = backend @ ''/'' @ join ''/'' path @ nextUrl_search req,
               rq_method = ''GET'', rq_headers = [], rq_body = None\<rparr>"
    using assms by (simp add: GET_issued)
  then show ?thesis
    by (simp add: GET_def fetch_def default_init_def relay_def Let_def split: sum.split)
qed

lemma POST_awaited:
  assumes "fst (POST backend upstream req path) = [rq]"
  shows "snd (POST backend upstream req path) =
         (case upstream rq of Inl e \<Rightarrow> Inl e | Inr r \<Rightarrow> relay r)"
proof -
  have "rq = \<lparr>rq_url = backend @ ''/'' @ join ''/'' path @ nextUrl_search req,
               rq_method = ''POST'',
               headers =
                 [(''Content-Type'',
                   js_or (headers_get (req_headers req) ''Content-Type'') ''application/json'')],
               rq_body = Some (utf8_encode (utf8_decode (req_body req)))\<rparr>"
    using assms by (simp add: POST_issued)
  then show ?thesis
    by (simp add: POST_def fetch_def text_of_def relay_def Let_def split: sum.split)
qed

lemma handler_awaited:
  assumes "h = GET \<or> h = POST" and "fst (h backend upstream req path) = [rq]"
  shows "snd (h backend upstream req path) =
         (case upstream rq of Inl e \<Rightarrow> Inl e | Inr r \<Rightarrow> relay r)"
  using assms GET_awaited POST_awaited by blast

lemma relay_relayable:
  assumes "relayable (status r)"
  shows "relay r =
         Inr \<lparr>status = status r,
              resp_headers =
                [(''Content-Type'',
                  js_or (headers_get (resp_headers r) ''Content-Type'') ''application/json'')],
              resp_body = utf8_encode (utf8_decode (resp_body r))\<rparr>"
  using assms by (simp add: relay_def new_Response_def relayable_def text_of_def)

lemma headers_get_single:
  "headers_get [(''Content-Type'', v)] ''Content-Type'' = Some v"
  by (simp add: headers_get_def)

lemma relay_null_body_status:
  assumes "status r = 204 \<or> status r = 205 \<or> status r = 304"
  shows "relay r = Inl (TypeError ''null body status'')"
  using assms by (auto simp: relay_def new_Response_def null_body_status_def)

lemma relay_status_out_of_range:
  assumes "status r < 200 \<or> 599 < status r"
  shows "relay r = Inl (RangeError ''status'')"
  using assms by (auto simp: relay_def new_Response_def)

lemma relay_Inr:
  assumes "relay r = Inr resp"
  shows "resp =
         \<lparr>status = status r,
          resp_headers =
            [(''Content-Type'',
              js_or (headers_get (resp_headers r) ''Content-Type'') ''application/json'')],
          resp_body = utf8_encode (utf8_decode (resp_body r))\<rparr>"
  using assms by (simp add: relay_def new_Response_def text_of_def split: if_splits)

section \<open>The upstream request\<close>

text \<open>
  C1. An inbound GET issues exactly one upstream request: method GET, no body, to the
  base URL followed by a slash, the segments joined by slashes, and the raw query
  string. With the base URL \<open>http://example.test\<close>, the segments \<open>foo\<close> and \<open>bar\<close>
  and no query the URL is \<open>http://example.test/foo/bar\<close>.
\<close>

theorem GET_issues_one_request:
  "fst (GET backend upstream req path) =
     [\<lparr>rq_url = backend @ ''/'' @ join ''/'' path @ nextUrl_search req,
       rq_method = ''GET'', rq_headers = [], rq_body = None\<rparr>]
   \<and> map rq_url (fst (GET (BACKEND [''NEXT_PUBLIC_BACKEND_URL'' \<mapsto> ''http://example.test''])
                  upstream (req\<lparr>nextUrl_search := []\<rparr>) [''foo'', ''bar'']))
     = [''http://example.test/foo/bar'']"
  by (simp add: GET_issued BACKEND_def)

theorem GET_issues_one_request_witness:
  "fst (GET ''http://example.test'' (\<lambda>rq. Inl (TypeError ''fetch failed''))
         \<lparr>nextUrl_search = ''?x=1'', req_headers = [], req_body = []\<rparr> [''a'', ''b'', ''c'']) =
     [\<lparr>rq_url = ''http://example.test/a/b/c?x=1'', rq_method = ''GET'', rq_headers = [],
       rq_body = None\<rparr>]"
  using GET_issues_one_request
    [of "''http://example.test''" "\<lambda>rq. Inl (TypeError ''fetch failed'')"
        "\<lparr>nextUrl_search = ''?x=1'', req_headers = [], req_body = []\<rparr>" "[''a'', ''b'', ''c'']"]
  by simp

text \<open>
  C3, at the request the chatbots page sends through the route: a GET with an
  \<open>Authorization\<close> header goes upstream with no header at all, and of the headers of
  a POST only \<open>Content-Type\<close> goes upstream.
\<close>

theorem inbound_headers_not_replayed:
  "map rq_headers
     (fst (GET backend upstream
            \<lparr>nextUrl_search = [], req_headers = [(''Authorization'', ''Bearer abc'')],
             req_body = []\<rparr> [''api'', ''chatbots''])) = [[]]
   \<and> map rq_headers
      (fst (POST backend upstream
            \<lparr>nextUrl_search = [],
             req_headers = [(''Authorization'', ''Bearer abc''), (''Content-Type'', ''text/plain'')],
             req_body = []\<rparr> [''api'', ''chatbots''])) = [[(''Content-Type'', ''text/plain'')]]"
proof -
  have "headers_get [(''Authorization'', ''Bearer abc''), (''Content-Type'', ''text/plain'')]
          ''Content-Type'' = Some ''text/plain''"
    by (simp add: headers_get_def ascii_lower_def)
  then show ?thesis by (simp add: GET_issued POST_issued)
qed

text \<open>
  C4, at the header of a PDF file (\<open>%PDF-1.4\<close>, a line feed, \<open>%\<close>, four bytes above
  7F, a line feed), which the knowledge page uploads through the route: the four bytes
  are no UTF-8, and each goes upstream as the three bytes of U+FFFD.
\<close>

theorem POST_body_reencoded:
  "map rq_body
     (fst (POST backend upstream
            \<lparr>nextUrl_search = [], req_headers = [],
             req_body = [0x25, 0x50, 0x44, 0x46, 0x2D, 0x31, 0x2E, 0x34, 0x0A,
                         0x25, 0xE2, 0xE3, 0xCF, 0xD3, 0x0A]\<rparr>
            [''api'', ''chatbots'', ''1'', ''knowledge'', ''upload''])) =
   [Some [0x25, 0x50, 0x44, 0x46, 0x2D, 0x31, 0x2E, 0x34, 0x0A,
          0x25, 0xEF, 0xBF, 0xBD, 0xEF, 0xBF, 0xBD, 0xEF, 0xBF, 0xBD, 0xEF, 0xBF, 0xBD, 0x0A]]"
proof -
  have "utf8_encode (utf8_decode [0x25, 0x50, 0x44, 0x46, 0x2D, 0x31, 0x2E, 0x34, 0x0A,
                                  0x25, 0xE2, 0xE3, 0xCF, 0xD3, 0x0A]) =
        [0x25, 0x50, 0x44, 0x46, 0x2D, 0x31, 0x2E, 0x34, 0x0A,
         0x25, 0xEF, 0xBF, 0xBD, 0xEF, 0xBF, 0xBD, 0xEF, 0xBF, 0xBD, 0xEF, 0xBF, 0xBD, 0x0A]"
    by (simp add: utf8_lead_def utf8_encode_def utf8_encode_cp_def)
  then show ?thesis by (simp add: POST_issued)
qed

text \<open>
  C5 as stated fails where the inbound \<open>Content-Type\<close> is present with an empty value:
  the outbound request then says \<open>application/json\<close>.
\<close>

theorem empty_content_type_replaced:
  "headers_get [(''Content-Type'', [])] ''Content-Type'' = Some []
   \<and> map rq_headers
      (fst (POST ''http://localhost:8000'' (\<lambda>rq. Inl (TypeError ''fetch failed''))
            \<lparr>nextUrl_search = [], req_headers = [(''Content-Type'', [])], req_body = []\<rparr>
            [''api'', ''chat''])) = [[(''Content-Type'', ''application/json'')]]"
proof -
  have "headers_get [(''Content-Type'', [])] ''Content-Type'' = Some []"
    by (simp add: headers_get_def ascii_lower_def)
  then show ?thesis by (simp add: POST_issued)
qed

text \<open>
  C5, amended. The \<open>Content-Type\<close> header of the outbound POST equals the inbound
  request's \<open>Content-Type\<close> when that is present and not empty, and is
  \<open>application/json\<close> when it is absent or empty.
\<close>

theorem POST_outbound_content_type:
  "map (\<lambda>rq. headers_get (rq_headers rq) ''Content-Type'')
     (fst (POST backend upstream req path)) =
     [Some (case headers_get (req_headers req) ''Content-Type'' of
              None \<Rightarrow> ''application/json''
            | Some v \<Rightarrow> if v = [] then ''application/json'' else v)]"
  by (cases "headers_get (req_headers req) ''Content-Type''")
     (simp_all add: POST_issued headers_get_single)

theorem POST_outbound_content_type_witness:
  "map (\<lambda>rq. headers_get (rq_headers rq) ''Content-Type'')
     (fst (POST ''http://localhost:8000'' (\<lambda>rq. Inl (TypeError ''fetch failed''))
            \<lparr>nextUrl_search = [],
             req_headers =
               [(''Authorization'', ''Bearer abc''),
                (''content-type'', ''multipart/form-data; boundary=x'')],
             req_body = []\<rparr> [''api'', ''chat''])) =
     [Some ''multipart/form-data; boundary=x'']"
proof -
  have "headers_get
          [(''Authorization'', ''Bearer abc''),
           (''content-type'', ''multipart/form-data; boundary=x'')] ''Content-Type'' =
        Some ''multipart/form-data; boundary=x''"
    by (simp add: headers_get_def ascii_lower_def)
  then show ?thesis
    using POST_outbound_content_type
      [where backend = "''http://localhost:8000''"
         and upstream = "\<lambda>rq. Inl (TypeError ''fetch failed'')"
         and req = "\<lparr>nextUrl_search = [],
                     req_headers =
                       [(''Authorization'', ''Bearer abc''),
                        (''content-type'', ''multipart/form-data; boundary=x'')],
                     req_body = []\<rparr>"
         and path = "[''api'', ''chat'']"]
    by simp
qed

section \<open>The relayed response\<close>

text \<open>
  C2 as stated fails on the body: \<open>r.text()\<close> decodes the upstream body as UTF-8 and
  the \<open>Response\<close> constructor encodes the string again, so an upstream body of the
  one byte \<open>FF\<close> reaches the caller as the three bytes of U+FFFD.
\<close>

theorem relayed_body_not_verbatim:
  "snd (GET ''http://localhost:8000''
         (\<lambda>rq. Inr \<lparr>status = 200,
                     resp_headers = [(''Content-Type'', ''application/octet-stream'')],
                     resp_body = [0xFF]\<rparr>)
         \<lparr>nextUrl_search = [], req_headers = [], req_body = []\<rparr> [''api'', ''export'']) =
     Inr \<lparr>status = 200, resp_headers = [(''Content-Type'', ''application/octet-stream'')],
          resp_body = [0xEF, 0xBF, 0xBD]\<rparr>
   \<and> [0xEF, 0xBF, 0xBD] \<noteq> [0xFF :: byte]"
proof -
  have "headers_get [(''Content-Type'', ''application/octet-stream'')] ''Content-Type'' =
        Some ''application/octet-stream''"
    by (simp add: headers_get_def ascii_lower_def)
  moreover have "utf8_encode (utf8_decode [0xFF]) = [0xEF, 0xBF, 0xBD]"
    by (simp add: utf8_lead_def utf8_encode_def utf8_encode_cp_def)
  ultimately show ?thesis
    by (simp add: GET_awaited [OF GET_issued] relay_def new_Response_def
        null_body_status_def text_of_def)
qed

text \<open>
  C2, amended. For GET and POST alike, when the upstream answers the request issued
  with a response \<open>r\<close> whose status the \<open>Response\<close> constructor accepts together
  with a body (200 to 599, other than 204, 205 and 304), the handler resolves to a
  response with the status of \<open>r\<close>, error statuses included, and with the body of
  \<open>r\<close> decoded and encoded again as UTF-8. That body is the body of \<open>r\<close>, byte for
  byte, whenever the body of \<open>r\<close> is well-formed UTF-8 that does not begin with a
  byte order mark.
\<close>

theorem relays_status_and_text:
  assumes "h = GET \<or> h = POST"
    and "fst (h backend upstream req path) = [rq]"
    and "upstream rq = Inr r"
    and "relayable (status r)"
  shows "snd (h backend upstream req path) =
           Inr \<lparr>status = status r,
                resp_headers =
                  [(''Content-Type'',
                    js_or (headers_get (resp_headers r) ''Content-Type'') ''application/json'')],
                resp_body = utf8_encode (utf8_decode (resp_body r))\<rparr>
         \<and> (list_all scalar_value t \<and> no_bom t \<and> resp_body r = utf8_encode t \<longrightarrow>
              utf8_encode (utf8_decode (resp_body r)) = resp_body r)"
  using assms by (simp add: handler_awaited relay_relayable utf8_decode_encode)

theorem relays_status_and_text_witness:
  "snd (POST ''http://localhost:8000''
         (\<lambda>rq. Inr \<lparr>status = 404, resp_headers = [(''content-type'', ''text/plain'')],
                     resp_body = [0x7B, 0xE2, 0x82, 0xAC, 0x7D]\<rparr>)
         \<lparr>nextUrl_search = [], req_headers = [], req_body = []\<rparr> [''api'', ''chat'']) =
     Inr \<lparr>status = 404, resp_headers = [(''Content-Type'', ''text/plain'')],
          resp_body = [0x7B, 0xE2, 0x82, 0xAC, 0x7D]\<rparr>
   \<and> list_all scalar_value [0x7B, 0x20AC, 0x7D] \<and> no_bom [0x7B, 0x20AC, 0x7D]
   \<and> utf8_encode [0x7B, 0x20AC, 0x7D] = [0x7B, 0xE2, 0x82, 0xAC, 0x7D]"
proof -
  let ?r = "\<lparr>status = 404, resp_headers = [(''content-type'', ''text/plain'')],
             resp_body = [0x7B, 0xE2, 0x82, 0xAC, 0x7D]\<rparr>"
  let ?req = "\<lparr>nextUrl_search = [], req_headers = [], req_body = []\<rparr>"
  have ct: "headers_get [(''content-type'', ''text/plain'')] ''Content-Type'' = Some ''text/plain''"
    by (simp add: headers_get_def ascii_lower_def)
  have wf: "list_all scalar_value [0x7B, 0x20AC, 0x7D]" "no_bom [0x7B, 0x20AC, 0x7D]"
    by (simp_all add: scalar_value_def no_bom_def)
  have enc: "utf8_encode [0x7B, 0x20AC, 0x7D] = [0x7B, 0xE2, 0x82, 0xAC, 0x7D]"
    by (simp add: utf8_encode_def utf8_encode_cp_def)
  have ok: "relayable (status ?r)"
    by (simp add: relayable_def null_body_status_def)
  have "POST = GET \<or> POST = POST" by simp
  from relays_status_and_text
    [OF this POST_issued [of "''http://localhost:8000''" "\<lambda>rq. Inr ?r" ?req "[''api'', ''chat'']"] _ ok,
     of "[0x7B, 0x20AC, 0x7D]"]
  show ?thesis using ct wf enc by simp
qed

text \<open>
  C6 as stated fails: the \<open>Content-Type\<close> of the response to a POST comes from the
  upstream response, not from the inbound request. An inbound \<open>text/plain\<close> answered
  upstream with \<open>text/html\<close> is relayed as \<open>text/html\<close>.
\<close>

theorem POST_response_type_not_inbound:
  "snd (POST ''http://localhost:8000''
         (\<lambda>rq. Inr \<lparr>status = 200, resp_headers = [(''Content-Type'', ''text/html'')],
                     resp_body = []\<rparr>)
         \<lparr>nextUrl_search = [], req_headers = [(''Content-Type'', ''text/plain'')],
          req_body = []\<rparr> [''api'', ''chat'']) =
     Inr \<lparr>status = 200, resp_headers = [(''Content-Type'', ''text/html'')], resp_body = []\<rparr>"
proof -
  have "headers_get [(''Content-Type'', ''text/html'')] ''Content-Type'' = Some ''text/html''"
    by (simp add: headers_get_def ascii_lower_def)
  moreover have "utf8_encode (utf8_decode []) = []"
    by (simp add: utf8_encode_def)
  ultimately show ?thesis
    by (simp add: POST_awaited [OF POST_issued] relay_def new_Response_def
        null_body_status_def text_of_def)
qed

text \<open>
  C6, amended. The \<open>Content-Type\<close> of the response to a POST is that of the upstream
  response when it is present and not empty, and \<open>application/json\<close> otherwise, as for
  a GET; the inbound request's \<open>Content-Type\<close> has no part in it. A response is
  returned whenever the upstream status is one the \<open>Response\<close> constructor accepts
  together with a body.
\<close>

theorem POST_response_content_type:
  assumes "fst (POST backend upstream req path) = [rq]"
    and "upstream rq = Inr r"
  shows "(\<forall>resp. snd (POST backend upstream req path) = Inr resp \<longrightarrow>
            resp_headers resp =
              [(''Content-Type'',
                (case headers_get (resp_headers r) ''Content-Type'' of
                   None \<Rightarrow> ''application/json''
                 | Some v \<Rightarrow> if v = [] then ''application/json'' else v))])
         \<and> (relayable (status r) \<longrightarrow> (\<exists>resp. snd (POST backend upstream req path) = Inr resp))"
proof -
  have "snd (POST backend upstream req path) = relay r"
    using assms by (simp add: POST_awaited)
  then show ?thesis
    by (cases "headers_get (resp_headers r) ''Content-Type''")
       (auto dest: relay_Inr simp: relay_relayable)
qed

theorem POST_response_content_type_witness:
  "\<exists>resp. snd (POST ''http://localhost:8000''
                (\<lambda>rq. Inr \<lparr>status = 201,
                            resp_headers = [(''content-type'', ''application/xml'')],
                            resp_body = []\<rparr>)
                \<lparr>nextUrl_search = [], req_headers = [(''Content-Type'', ''text/plain'')],
                 req_body = []\<rparr> [''api'', ''chat'']) = Inr resp
        \<and> resp_headers resp = [(''Content-Type'', ''application/xml'')]"
proof -
  let ?r = "\<lparr>status = 201, resp_headers = [(''content-type'', ''application/xml'')],
             resp_body = []\<rparr>"
  let ?req = "\<lparr>nextUrl_search = [], req_headers = [(''Content-Type'', ''text/plain'')],
               req_body = []\<rparr>"
  have ct: "headers_get [(''content-type'', ''application/xml'')] ''Content-Type'' =
            Some ''application/xml''"
    by (simp add: headers_get_def ascii_lower_def)
  have ok: "relayable (status ?r)"
    by (simp add: relayable_def null_body_status_def)
  note w = POST_response_content_type
    [OF POST_issued [of "''http://localhost:8000''" "\<lambda>rq. Inr ?r" ?req "[''api'', ''chat'']"],
     of ?r]
  from w ok ct show ?thesis by auto
qed



text \<open>
  C10. For GET and POST alike, a response the handler returns carries exactly one
  header, \<open>Content-Type\<close>; no other header of the upstream response is on it.
\<close>

theorem response_has_one_header:
  assumes "h = GET \<or> h = POST"
    and "fst (h backend upstream req path) = [rq]"
    and "upstream rq = Inr r"
    and "snd (h backend upstream req path) = Inr resp"
  shows "length (resp_headers resp) = 1 \<and> map fst (resp_headers resp) = [''Content-Type'']"
proof -
  have "relay r = Inr resp"
    using assms by (simp add: handler_awaited)
  then show ?thesis
    by (auto dest: relay_Inr)
qed

theorem response_has_one_header_witness:
  "snd (GET ''http://localhost:8000''
         (\<lambda>rq. Inr \<lparr>status = 200,
                     resp_headers =
                       [(''Set-Cookie'', ''sid=1''), (''Content-Type'', ''text/html''),
                        (''Cache-Control'', ''no-store'')],
                     resp_body = []\<rparr>)
         \<lparr>nextUrl_search = [], req_headers = [], req_body = []\<rparr> [''api'', ''chatbots'']) =
     Inr \<lparr>status = 200, resp_headers = [(''Content-Type'', ''text/html'')], resp_body = []\<rparr>
   \<and> map fst (resp_headers
        \<lparr>status = 200, resp_headers = [(''Content-Type'', ''text/html'')], resp_body = []\<rparr>) =
       [''Content-Type'']"
proof -
  let ?r = "\<lparr>status = 200,
             resp_headers =
               [(''Set-Cookie'', ''sid=1''), (''Content-Type'', ''text/html''),
                (''Cache-Control'', ''no-store'')],
             resp_body = []\<rparr>"
  let ?req = "\<lparr>nextUrl_search = [], req_headers = [], req_body = []\<rparr>"
  let ?rq = "\<lparr>rq_url = ''http://localhost:8000'' @ ''/'' @ join ''/'' [''api'', ''chatbots'']
                    @ nextUrl_search ?req,
              rq_method = ''GET'', rq_headers = [], rq_body = None\<rparr>"
  let ?resp = "\<lparr>status = 200, resp_headers = [(''Content-Type'', ''text/html'')],
                resp_body = []\<rparr>"
  have ct: "headers_get
              [(''Set-Cookie'', ''sid=1''), (''Content-Type'', ''text/html''),
               (''Cache-Control'', ''no-store'')] ''Content-Type'' = Some ''text/html''"
    by (simp add: headers_get_def ascii_lower_def)
  have out: "snd (GET ''http://localhost:8000'' (\<lambda>rq. Inr ?r) ?req [''api'', ''chatbots'']) =
             Inr ?resp"
    using ct
    by (simp add: GET_awaited [OF GET_issued] relay_def new_Response_def
        null_body_status_def text_of_def utf8_encode_def)
  have g: "GET = GET \<or> GET = POST" by simp
  have up: "(\<lambda>rq. Inr ?r) ?rq = Inr ?r" by simp
  note w = response_has_one_header
    [where h = GET and backend = "''http://localhost:8000''" and upstream = "\<lambda>rq. Inr ?r"
       and req = ?req and path = "[''api'', ''chatbots'']" and rq = ?rq and r = ?r
       and resp = ?resp]
  have "length (resp_headers ?resp) = 1 \<and> map fst (resp_headers ?resp) = [''Content-Type'']"
    using g GET_issued up out by (rule w)
  then have "map fst (resp_headers ?resp) = [''Content-Type'']"
    by (rule conjunct2)
  with out show ?thesis
    by (rule conjI)
qed

section \<open>Failures\<close>

text \<open>
  C8. For GET and POST alike, when the call of \<open>fetch\<close> rejects with an error, the
  handler's result is that error: it returns no response and puts no other error in
  its place.
\<close>

theorem network_failure_propagates:
  assumes "h = GET \<or> h = POST"
    and "fst (h backend upstream req path) = [rq]"
    and "upstream rq = Inl e"
  shows "snd (h backend upstream req path) = Inl e"
  using assms by (simp add: handler_awaited)

theorem network_failure_propagates_witness:
  "snd (GET ''http://localhost:8000'' (\<lambda>rq. Inl (TypeError ''fetch failed''))
         \<lparr>nextUrl_search = ''?x=1'', req_headers = [], req_body = []\<rparr> [''api'', ''chat'']) =
     Inl (TypeError ''fetch failed'')
   \<and> snd (POST ''http://localhost:8000'' (\<lambda>rq. Inl (TypeError ''fetch failed''))
           \<lparr>nextUrl_search = [], req_headers = [], req_body = [0x7B, 0x7D]\<rparr>
           [''api'', ''chat'']) =
       Inl (TypeError ''fetch failed'')"
proof -
  let ?up = "\<lambda>rq :: upstream_request. Inl (TypeError ''fetch failed'') :: exn + Response"
  let ?req1 = "\<lparr>nextUrl_search = ''?x=1'', req_headers = [], req_body = []\<rparr>"
  let ?req2 = "\<lparr>nextUrl_search = [], req_headers = [], req_body = [0x7B, 0x7D]\<rparr>"
  have g: "GET = GET \<or> GET = POST" and p: "POST = GET \<or> POST = POST"
    by simp_all
  note w1 = network_failure_propagates
    [OF g GET_issued [of "''http://localhost:8000''" ?up ?req1 "[''api'', ''chat'']"],
     of "TypeError ''fetch failed''"]
  note w2 = network_failure_propagates
    [OF p POST_issued [of "''http://localhost:8000''" ?up ?req2 "[''api'', ''chat'']"],
     of "TypeError ''fetch failed''"]
  from w1 w2 show ?thesis by simp
qed

section \<open>Configuration\<close>

text \<open>
  C9. The base URL is read from the environment when the module is loaded and not
  again. It is \<open>http://localhost:8000\<close> when the variable is not set, and the value
  of the variable when it is set to a string that is not empty. Every request handled
  afterwards goes to a URL that begins with the value that the environment of the
  load gives, whatever the environment is at the time of the request; and the process
  environment at the time of a request has no effect on the outcome.
\<close>

theorem BACKEND_read_once:
  "(env ''NEXT_PUBLIC_BACKEND_URL'' = None \<longrightarrow> BACKEND env = ''http://localhost:8000'')
   \<and> (env ''NEXT_PUBLIC_BACKEND_URL'' = Some v \<and> v \<noteq> [] \<longrightarrow> BACKEND env = v)
   \<and> map (map rq_url \<circ> fst) (serve env0 arrivals) =
       map (\<lambda>a. [(case env0 ''NEXT_PUBLIC_BACKEND_URL'' of
                     None \<Rightarrow> ''http://localhost:8000''
                   | Some b \<Rightarrow> if b = [] then ''http://localhost:8000'' else b)
                  @ ''/'' @ join ''/'' (captured a) @ nextUrl_search (inbound a)])
         arrivals
   \<and> serve env0 (map (\<lambda>a. a\<lparr>env_now := later a\<rparr>) arrivals) = serve env0 arrivals"
proof -
  have base: "BACKEND env0 =
      (case env0 ''NEXT_PUBLIC_BACKEND_URL'' of
         None \<Rightarrow> ''http://localhost:8000''
       | Some b \<Rightarrow> if b = [] then ''http://localhost:8000'' else b)"
    by (cases "env0 ''NEXT_PUBLIC_BACKEND_URL''") (simp_all add: BACKEND_def)
  have issued: "(map rq_url \<circ> fst) (invoke b a) =
        [b @ ''/'' @ join ''/'' (captured a) @ nextUrl_search (inbound a)]" for b a
    by (cases "export_called a") (simp_all add: invoke_def GET_issued POST_issued)
  have frame: "invoke b (a\<lparr>env_now := e\<rparr>) = invoke b a" for b a e
    by (cases "export_called a") (simp_all add: invoke_def)
  have urls: "map (map rq_url \<circ> fst) (serve env0 arrivals) =
       map (\<lambda>a. [BACKEND env0 @ ''/'' @ join ''/'' (captured a) @ nextUrl_search (inbound a)])
         arrivals"
    using issued by (simp add: serve_def comp_def)
  have same: "serve env0 (map (\<lambda>a. a\<lparr>env_now := later a\<rparr>) arrivals) = serve env0 arrivals"
    using frame by (simp add: serve_def comp_def)
  have unset: "env ''NEXT_PUBLIC_BACKEND_URL'' = None \<longrightarrow> BACKEND env = ''http://localhost:8000''"
    by (simp add: BACKEND_def)
  have set: "env ''NEXT_PUBLIC_BACKEND_URL'' = Some v \<and> v \<noteq> [] \<longrightarrow> BACKEND env = v"
    by (simp add: BACKEND_def)
  show ?thesis
    using unset set urls same unfolding base by (intro conjI)
qed

theorem BACKEND_read_once_witness:
  "BACKEND Map.empty = ''http://localhost:8000''
   \<and> BACKEND [''NEXT_PUBLIC_BACKEND_URL'' \<mapsto> ''http://example.test''] = ''http://example.test''
   \<and> map (map rq_url \<circ> fst)
       (serve [''NEXT_PUBLIC_BACKEND_URL'' \<mapsto> ''http://example.test'']
          [\<lparr>env_now = [''NEXT_PUBLIC_BACKEND_URL'' \<mapsto> ''http://other.test''],
            upstream_now = (\<lambda>rq. Inl (TypeError ''fetch failed'')),
            export_called = GET_handler,
            inbound = \<lparr>nextUrl_search = ''?x=1'', req_headers = [], req_body = []\<rparr>,
            captured = [''api'', ''chatbots'']\<rparr>,
           \<lparr>env_now = Map.empty,
            upstream_now = (\<lambda>rq. Inl (TypeError ''fetch failed'')),
            export_called = POST_handler,
            inbound = \<lparr>nextUrl_search = [], req_headers = [], req_body = []\<rparr>,
            captured = [''api'', ''chat'']\<rparr>]) =
       [[''http://example.test/api/chatbots?x=1''], [''http://example.test/api/chat'']]"
proof -
  let ?arrivals =
    "[\<lparr>env_now = [''NEXT_PUBLIC_BACKEND_URL'' \<mapsto> ''http://other.test''],
       upstream_now = (\<lambda>rq. Inl (TypeError ''fetch failed'')),
       export_called = GET_handler,
       inbound = \<lparr>nextUrl_search = ''?x=1'', req_headers = [], req_body = []\<rparr>,
       captured = [''api'', ''chatbots'']\<rparr>,
      \<lparr>env_now = Map.empty,
       upstream_now = (\<lambda>rq. Inl (TypeError ''fetch failed'')),
       export_called = POST_handler,
       inbound = \<lparr>nextUrl_search = [], req_headers = [], req_body = []\<rparr>,
       captured = [''api'', ''chat'']\<rparr>]"
  note unset = BACKEND_read_once
    [where env = Map.empty and env0 = Map.empty and arrivals = "[]"]
  note loaded = BACKEND_read_once
    [where env = "[''NEXT_PUBLIC_BACKEND_URL'' \<mapsto> ''http://example.test'']"
       and v = "''http://example.test''"
       and env0 = "[''NEXT_PUBLIC_BACKEND_URL'' \<mapsto> ''http://example.test'']"
       and arrivals = ?arrivals]
  have 1: "BACKEND Map.empty = ''http://localhost:8000''"
    using unset by simp
  have 2: "BACKEND [''NEXT_PUBLIC_BACKEND_URL'' \<mapsto> ''http://example.test''] =
           ''http://example.test''"
    using loaded by simp
  have 3: "map (map rq_url \<circ> fst)
             (serve [''NEXT_PUBLIC_BACKEND_URL'' \<mapsto> ''http://example.test''] ?arrivals) =
           [[''http://example.test/api/chatbots?x=1''], [''http://example.test/api/chat'']]"
    using loaded by simp
  from 1 2 3 show ?thesis by (intro conjI)
qed

end
